theory Spec2Isabelle
  imports Main "HOL-Library.Sublist"
begin

section \<open>JavaScript values\<close>

text \<open>
  \<open>expect-request.js\<close> reads an HTTP response (\<open>statusCode\<close>, \<open>headers\<close>, \<open>body\<close>) through
  property access, truthiness tests, template-literal rendering and \<open>String.prototype.replace\<close>.
  The values it can meet are modelled by \<open>jsval\<close>: the JSON data of a parsed payload,
  \<open>undefined\<close>, and the built-in functions and prototype objects that a property read finds on
  the prototype chain. An object is the list of its own data properties (keys distinct, in
  \<open>Object.keys\<close> order). A built-in is \<open>JNative\<close> of its string conversion, for instance
  \<open>function Object() { [native code] }\<close>. A number is an integer, rendered in decimal as
  JavaScript renders every integer of magnitude below \<open>10^21\<close>. Strings are lists of 8-bit
  characters, and \<open>toLowerCase\<close> acts on the ASCII letters, which is what header names consist
  of.
\<close>

datatype jsval = JUndefined | JNull | JBool bool | JNum int | JStr string
  | JArr "jsval list" | JObj "(string \<times> jsval) list" | JNative string

text \<open>
  A \<open>RegExp\<close> object. \<open>re_ref\<close> is its identity: two descriptors that were given the same object
  hold the same reference. \<open>re_text\<close> is its rendering (\<open>/json/g\<close>), \<open>re_global\<close> and \<open>re_sticky\<close> are
  the \<open>g\<close> and \<open>y\<close> flags, and \<open>re_match s i\<close> is the pattern's matcher: the end index of the match
  found in \<open>s\<close> when matching starts at index \<open>i\<close> (searching onwards from \<open>i\<close>, or at \<open>i\<close> only
  for a sticky pattern), \<open>None\<close> when there is none. Nothing is assumed about the matcher. The
  object's mutable state is its \<open>lastIndex\<close>, kept in a store under the reference.
\<close>

datatype regexp =
  RegExp (re_ref: nat) (re_text: string) (re_global: bool) (re_sticky: bool)
    (re_match: "string \<Rightarrow> nat \<Rightarrow> nat option")

type_synonym store = "nat \<Rightarrow> nat"

text \<open>A caller-supplied value that may be a \<open>RegExp\<close> (\<open>expectedValue instanceof RegExp\<close>).\<close>

datatype jsany = Plain jsval | Pattern regexp

text \<open>
  \<open>RegExp.prototype.test\<close> (ECMAScript \<open>RegExpBuiltinExec\<close>): a pattern with the \<open>g\<close> or \<open>y\<close> flag
  starts at its \<open>lastIndex\<close> and leaves the end of the match there, or 0 when it fails; a
  pattern with neither flag starts at 0 and leaves \<open>lastIndex\<close> alone.
\<close>

definition js_test :: "regexp \<Rightarrow> string \<Rightarrow> store \<Rightarrow> bool \<times> store" where
  "js_test re s st =
     (let stateful = (re_global re \<or> re_sticky re);
          lastIndex = (if stateful then st (re_ref re) else 0)
      in case (if lastIndex > length s then None else re_match re s lastIndex) of
           None \<Rightarrow> (False, if stateful then st(re_ref re := 0) else st)
         | Some stop \<Rightarrow> (True, if stateful then st(re_ref re := stop) else st))"

definition dq :: string where
  "dq = [CHR 0x22]"

definition nl :: string where
  "nl = [CHR 0x0A]"

definition digit_char :: "nat \<Rightarrow> char" where
  "digit_char n = ''0123456789'' ! n"

fun show_nat :: "nat \<Rightarrow> string" where
  "show_nat n = (if n < 10 then [digit_char n] else show_nat (n div 10) @ [digit_char (n mod 10)])"

declare show_nat.simps [simp del]

definition show_int :: "int \<Rightarrow> string" where
  "show_int i = (if i < 0 then CHR ''-'' # show_nat (nat (- i)) else show_nat (nat i))"

fun join :: "string \<Rightarrow> string list \<Rightarrow> string" where
  "join sep [] = []"
| "join sep [x] = x"
| "join sep (x # y # ys) = x @ sep @ join sep (y # ys)"

text \<open>\<open>`${v}`\<close>: the string conversion of a template literal.\<close>

fun js_to_string :: "jsval \<Rightarrow> string" where
  "js_to_string JUndefined = ''undefined''"
| "js_to_string JNull = ''null''"
| "js_to_string (JBool b) = (if b then ''true'' else ''false'')"
| "js_to_string (JNum n) = show_int n"
| "js_to_string (JStr s) = s"
| "js_to_string (JArr xs) =
     join '','' (map (\<lambda>x. case x of JUndefined \<Rightarrow> [] | JNull \<Rightarrow> [] | _ \<Rightarrow> js_to_string x) xs)"
| "js_to_string (JObj kvs) = ''[object Object]''"
| "js_to_string (JNative r) = r"

fun any_to_string :: "jsany \<Rightarrow> string" where
  "any_to_string (Plain v) = js_to_string v"
| "any_to_string (Pattern re) = re_text re"

text \<open>Truthiness, as \<open>if (v)\<close>, \<open>!v\<close> and \<open>&&\<close> test it.\<close>

fun js_truthy :: "jsval \<Rightarrow> bool" where
  "js_truthy JUndefined = False"
| "js_truthy JNull = False"
| "js_truthy (JBool b) = b"
| "js_truthy (JNum n) = (n \<noteq> 0)"
| "js_truthy (JStr s) = (s \<noteq> [])"
| "js_truthy (JArr xs) = True"
| "js_truthy (JObj kvs) = True"
| "js_truthy (JNative r) = True"

text \<open>\<open>v === undefined\<close> and the loose \<open>v == undefined\<close> (true of \<open>null\<close> as well).\<close>

fun is_undefined :: "jsval \<Rightarrow> bool" where
  "is_undefined JUndefined = True"
| "is_undefined _ = False"

fun is_nullish :: "jsval \<Rightarrow> bool" where
  "is_nullish JUndefined = True"
| "is_nullish JNull = True"
| "is_nullish _ = False"

definition to_lower :: "char \<Rightarrow> char" where
  "to_lower c =
     (case map_of (zip ''ABCDEFGHIJKLMNOPQRSTUVWXYZ'' ''abcdefghijklmnopqrstuvwxyz'') c of
        Some l \<Rightarrow> l
      | None \<Rightarrow> c)"

definition toLowerCase :: "string \<Rightarrow> string" where
  "toLowerCase s = map to_lower s"

text \<open>
  \<open>String.prototype.replace(pattern, replacement)\<close> with a string pattern: only the first
  occurrence is replaced, and the replacement is not spliced in verbatim but expanded
  (ECMAScript \<open>GetSubstitution\<close>): \<open>$$\<close> gives \<open>$\<close>, \<open>$&\<close> the matched text, \<open>$`\<close> the text before
  the match and \<open>$'\<close> the text after it. With a string pattern there are no capture groups, so
  every other \<open>$\<close> stays as it is.
\<close>

fun index_of :: "string \<Rightarrow> string \<Rightarrow> nat option" where
  "index_of pat [] = (if pat = [] then Some 0 else None)"
| "index_of pat (c # cs) =
     (if prefix pat (c # cs) then Some 0 else map_option Suc (index_of pat cs))"

fun get_substitution :: "string \<Rightarrow> string \<Rightarrow> string \<Rightarrow> string \<Rightarrow> string" where
  "get_substitution matched before after [] = []"
| "get_substitution matched before after [c] = [c]"
| "get_substitution matched before after (c # d # rest) =
     (if c = CHR 0x24 then
        (if d = CHR 0x24 then CHR 0x24 # get_substitution matched before after rest
         else if d = CHR 0x26 then matched @ get_substitution matched before after rest
         else if d = CHR 0x60 then before @ get_substitution matched before after rest
         else if d = CHR 0x27 then after @ get_substitution matched before after rest
         else c # get_substitution matched before after (d # rest))
      else c # get_substitution matched before after (d # rest))"

definition js_replace :: "string \<Rightarrow> string \<Rightarrow> string \<Rightarrow> string" where
  "js_replace s pat replacement =
     (case index_of pat s of
        None \<Rightarrow> s
      | Some i \<Rightarrow>
          (let before = take i s; after = drop (i + length pat) s
           in before @ get_substitution pat before after replacement @ after))"

section \<open>Errors\<close>

text \<open>
  Every raised value is an error object. \<open>stack\<close> is the text V8 fixes when the error is
  constructed: a header \<open>name: message\<close> followed by the call frames. A \<open>throw\<close> is the \<open>Inl\<close>
  branch of a sum, normal completion the \<open>Inr\<close> branch.
\<close>

record js_error =
  name :: string
  message :: string
  stack :: string
  expected :: jsany
  actual :: jsany
  contextString :: string
  showDiff :: "bool option"

definition new_Error :: "string \<Rightarrow> string \<Rightarrow> string \<Rightarrow> js_error" where
  "new_Error nm msg frames =
     \<lparr>name = nm, message = msg, stack = nm @ '': '' @ msg @ nl @ frames,
      expected = Plain JUndefined, actual = Plain JUndefined, contextString = [],
      showDiff = None\<rparr>"

text \<open>Reading a property of \<open>undefined\<close> or \<open>null\<close>.\<close>

definition type_error :: "jsval \<Rightarrow> string \<Rightarrow> js_error" where
  "type_error v p =
     new_Error ''TypeError''
       (''Cannot read properties of '' @ js_to_string v @ '' (reading '' @ [CHR 0x27] @ p
          @ [CHR 0x27] @ '')'') []"

definition is_digit :: "char \<Rightarrow> bool" where
  "is_digit c = (c \<in> set ''0123456789'')"

definition nat_of_digits :: "string \<Rightarrow> nat" where
  "nat_of_digits s = foldl (\<lambda>n c. 10 * n + (of_char c - 48)) 0 s"

text \<open>A property name that is an array index: a decimal numeral without leading zeros.\<close>

definition array_index :: "string \<Rightarrow> nat option" where
  "array_index p =
     (if p \<noteq> [] \<and> list_all is_digit p \<and> (p = ''0'' \<or> hd p \<noteq> CHR ''0'')
      then Some (nat_of_digits p) else None)"

section \<open>Property reads and the prototype chain\<close>

text \<open>
  What a value inherits (ECMAScript 2024): every object the members of \<open>Object.prototype\<close>, an
  array first those of \<open>Array.prototype\<close>, a string those of \<open>String.prototype\<close>, a number those of
  \<open>Number.prototype\<close>, a boolean those of \<open>Boolean.prototype\<close>. A member is a built-in function,
  except \<open>__proto__\<close>, which yields the prototype object itself.
\<close>

definition native_function :: "string \<Rightarrow> jsval" where
  "native_function nm = JNative (''function '' @ nm @ ''() { [native code] }'')"

definition natives :: "string list \<Rightarrow> (string \<times> jsval) list" where
  "natives names = map (\<lambda>nm. (nm, native_function nm)) names"

definition object_prototype :: "(string \<times> jsval) list" where
  "object_prototype =
     (''constructor'', native_function ''Object'') # (''__proto__'', JNative ''[object Object]'')
     # natives [''__defineGetter__'', ''__defineSetter__'', ''hasOwnProperty'',
         ''__lookupGetter__'', ''__lookupSetter__'', ''isPrototypeOf'', ''propertyIsEnumerable'',
         ''toString'', ''valueOf'', ''toLocaleString'']"

definition array_prototype :: "(string \<times> jsval) list" where
  "array_prototype =
     (''constructor'', native_function ''Array'') # (''__proto__'', JNative [])
     # natives [''at'', ''concat'', ''copyWithin'', ''entries'', ''every'', ''fill'', ''filter'',
         ''find'', ''findIndex'', ''findLast'', ''findLastIndex'', ''flat'', ''flatMap'',
         ''forEach'', ''includes'', ''indexOf'', ''join'', ''keys'', ''lastIndexOf'', ''map'',
         ''pop'', ''push'', ''reduce'', ''reduceRight'', ''reverse'', ''shift'', ''slice'',
         ''some'', ''sort'', ''splice'', ''toLocaleString'', ''toReversed'', ''toSorted'',
         ''toSpliced'', ''toString'', ''unshift'', ''values'', ''with'']"

definition string_prototype :: "(string \<times> jsval) list" where
  "string_prototype =
     (''constructor'', native_function ''String'') # (''__proto__'', JNative [])
     # (''trimLeft'', native_function ''trimStart'') # (''trimRight'', native_function ''trimEnd'')
     # natives [''anchor'', ''at'', ''big'', ''blink'', ''bold'', ''charAt'', ''charCodeAt'',
         ''codePointAt'', ''concat'', ''endsWith'', ''fixed'', ''fontcolor'', ''fontsize'',
         ''includes'', ''indexOf'', ''isWellFormed'', ''italics'', ''lastIndexOf'', ''link'',
         ''localeCompare'', ''match'', ''matchAll'', ''normalize'', ''padEnd'', ''padStart'',
         ''repeat'', ''replace'', ''replaceAll'', ''search'', ''slice'', ''small'', ''split'',
         ''startsWith'', ''strike'', ''sub'', ''substr'', ''substring'', ''sup'',
         ''toLocaleLowerCase'', ''toLocaleUpperCase'', ''toLowerCase'', ''toString'',
         ''toUpperCase'', ''toWellFormed'', ''trim'', ''trimEnd'', ''trimStart'', ''valueOf'']"

definition number_prototype :: "(string \<times> jsval) list" where
  "number_prototype =
     (''constructor'', native_function ''Number'') # (''__proto__'', JNative ''0'')
     # natives [''toExponential'', ''toFixed'', ''toLocaleString'', ''toPrecision'', ''toString'',
         ''valueOf'']"

definition boolean_prototype :: "(string \<times> jsval) list" where
  "boolean_prototype =
     (''constructor'', native_function ''Boolean'') # (''__proto__'', JNative ''false'')
     # natives [''toString'', ''valueOf'']"

fun inherited :: "jsval \<Rightarrow> string \<Rightarrow> jsval option" where
  "inherited (JObj kvs) p = map_of object_prototype p"
| "inherited (JArr xs) p = map_of (array_prototype @ object_prototype) p"
| "inherited (JStr s) p = map_of (string_prototype @ object_prototype) p"
| "inherited (JNum n) p = map_of (number_prototype @ object_prototype) p"
| "inherited (JBool b) p = map_of (boolean_prototype @ object_prototype) p"
| "inherited _ p = None"

text \<open>
  The own properties of a value: the entries of an object, the elements and \<open>length\<close> of an
  array, the characters and \<open>length\<close> of a string.
\<close>

fun own_property :: "jsval \<Rightarrow> string \<Rightarrow> jsval option" where
  "own_property (JObj kvs) p = map_of kvs p"
| "own_property (JArr xs) p =
     (case array_index p of
        Some i \<Rightarrow> (if i < length xs then Some (xs ! i) else None)
      | None \<Rightarrow> (if p = ''length'' then Some (JNum (int (length xs))) else None))"
| "own_property (JStr s) p =
     (case array_index p of
        Some i \<Rightarrow> (if i < length s then Some (JStr [s ! i]) else None)
      | None \<Rightarrow> (if p = ''length'' then Some (JNum (int (length s))) else None))"
| "own_property _ p = None"

text \<open>
  \<open>v[p]\<close> and \<open>v.p\<close>: a \<open>TypeError\<close> on \<open>undefined\<close> and \<open>null\<close>; otherwise the own property, else
  the inherited member, else \<open>undefined\<close>. The members of a built-in itself are outside the
  model (they read as \<open>undefined\<close>). No check reads one: the only reads from the result of a
  read are those of \<open>response.body.errors[0].message\<close>, and no value inherits \<open>errors\<close> or \<open>0\<close>.
\<close>

definition js_get :: "jsval \<Rightarrow> string \<Rightarrow> js_error + jsval" where
  "js_get v p =
     (if is_nullish v then Inl (type_error v p)
      else case own_property v p of
             Some x \<Rightarrow> Inr x
           | None \<Rightarrow> (case inherited v p of Some x \<Rightarrow> Inr x | None \<Rightarrow> Inr JUndefined))"

definition and_then :: "'e + 'a \<Rightarrow> ('a \<Rightarrow> 'e + 'b) \<Rightarrow> 'e + 'b" where
  "and_then r k = (case r of Inl e \<Rightarrow> Inl e | Inr x \<Rightarrow> k x)"

text \<open>
  \<open>assert.equal(a, b, error)\<close>, \<open>assert.notEqual\<close> and \<open>assert.notStrictEqual\<close> with an error
  object as third argument: when the comparison fails, that very object is thrown.
\<close>

definition assert_that :: "bool \<Rightarrow> js_error \<Rightarrow> js_error + unit" where
  "assert_that holds err = (if holds then Inr () else Inl err)"

section \<open>Responses, collaborators and descriptors\<close>

text \<open>
  The response handed over by the Request collaborator. \<open>headers\<close> and \<open>body\<close> are JavaScript
  values, so that a missing field (\<open>undefined\<close>) can be told from an empty one.
\<close>

record response =
  statusCode :: int
  headers :: jsval
  body :: jsval

text \<open>
  What \<open>snapshotManager.match\<close> returns. Its fields \<open>message()\<close>, \<open>expected\<close> and \<open>actual\<close> carry the
  prefix \<open>match_\<close> here, the plain names being those of the error object.
\<close>

record match_result =
  pass :: bool
  match_message :: string
  match_expected :: jsany
  match_actual :: jsany

text \<open>
  Code that \<open>expect-request.js\<close> calls but does not contain is a parameter of the model:
  \<open>JSON.stringify\<close>, \<open>snapshotManager.match(value, properties, hint)\<close> of
  \<open>@tryghost/jest-snapshot\<close> (which may itself throw) and \<open>makeMessageFromMatchMessage\<close> of
  \<open>./utils\<close>. Nothing is assumed about what they compute.
\<close>

record env =
  JSON_stringify :: "jsval \<Rightarrow> string"
  snapshotManager_match :: "jsval \<Rightarrow> (string \<times> jsval) list \<Rightarrow> string \<Rightarrow> js_error + match_result"
  makeMessageFromMatchMessage :: "string \<Rightarrow> string \<Rightarrow> string"

datatype snapshot_field = Body | Headers

fun field_name :: "snapshot_field \<Rightarrow> string" where
  "field_name Body = ''body''"
| "field_name Headers = ''headers''"

text \<open>
  An assertion descriptor. Its \<open>fn\<close> is one of four functions, and the variant fields of the
  object (\<open>expected\<close>; \<open>expectedField\<close>, \<open>expectedValue\<close>; \<open>properties\<close>, \<open>field\<close>) are read by that
  function only, so each constructor of \<open>check\<close> carries the fields its function reads:
  \<open>WrapperFn callback\<close> is the closure built by \<open>expect\<close>, \<open>AssertStatus expected\<close> is
  \<open>_assertStatus\<close>, \<open>AssertHeader expectedField expectedValue\<close> is \<open>_assertHeader\<close> and
  \<open>AssertSnapshot properties field\<close> is \<open>_assertSnapshot\<close>. A user callback is what it does with a
  response: return (\<open>None\<close>) or throw an error (\<open>Some\<close>). \<open>type\<close> is the string tag, \<open>None\<close> when
  the object has none.
\<close>

datatype check =
    WrapperFn "response \<Rightarrow> js_error option"
  | AssertStatus int
  | AssertHeader string jsany
  | AssertSnapshot "(string \<times> jsval) list" snapshot_field

record assertion =
  fn :: check
  type :: "string option"
  error :: js_error

text \<open>
  The request object: the queue, and the rendering \<open>this.reqOptions.toString()\<close> of the outbound
  request, which the Request collaborator supplies.
\<close>

record request =
  assertions :: "assertion list"
  reqOptions :: string

section \<open>Registration\<close>

text \<open>
  \<open>new assert.AssertionError({message, expected, stackStartFn})\<close>: the stack text is fixed at
  construction, from the message of that moment and the frames of the call site.
\<close>

definition new_AssertionError :: "string \<Rightarrow> jsany \<Rightarrow> string \<Rightarrow> js_error" where
  "new_AssertionError msg ex frames =
     \<lparr>name = ''AssertionError'', message = msg,
      stack = ''AssertionError [ERR_ASSERTION]: '' @ msg @ nl @ frames,
      expected = ex, actual = Plain JUndefined, contextString = [], showDiff = None\<rparr>"

fun assertion_expected :: "check \<Rightarrow> jsany" where
  "assertion_expected (AssertStatus ex) = Plain (JNum ex)"
| "assertion_expected _ = Plain JUndefined"

text \<open>
  \<open>_addAssertion\<close> (the source's leading underscores are dropped throughout); \<open>frames\<close> is the
  call stack at the registration call, which the error captures.
\<close>

definition addAssertion :: "string \<Rightarrow> check \<Rightarrow> string option \<Rightarrow> request \<Rightarrow> request" where
  "addAssertion frames f t req =
     (let err = new_AssertionError ''Unexpected assertion error'' (assertion_expected f) frames;
          err' = err\<lparr>contextString := reqOptions req\<rparr>
      in req\<lparr>assertions := assertions req @ [\<lparr>fn = f, type = t, error = err'\<rparr>]\<rparr>)"

text \<open>The argument of \<open>expect\<close>: a function, or any other value.\<close>

datatype callback_arg = Function "response \<Rightarrow> js_error option" | NotFunction jsval

text \<open>
  \<open>expect\<close> returns what it throws (if anything) together with the request object as it is
  then; the other registration operations cannot throw and return the request.
\<close>

definition expect :: "string \<Rightarrow> callback_arg \<Rightarrow> request \<Rightarrow> js_error option \<times> request" where
  "expect frames callback req =
     (case callback of
        NotFunction v \<Rightarrow>
          (Some (new_Error ''Error''
             ''express-test expect() requires a callback function, did you mean expectStatus or expectHeader?''
             frames), req)
      | Function f \<Rightarrow> (None, addAssertion frames (WrapperFn f) (Some ''body'') req))"

definition expectStatus :: "string \<Rightarrow> int \<Rightarrow> request \<Rightarrow> request" where
  "expectStatus frames ex req = addAssertion frames (AssertStatus ex) (Some ''status'') req"

definition expectHeader :: "string \<Rightarrow> string \<Rightarrow> jsany \<Rightarrow> request \<Rightarrow> request" where
  "expectHeader frames expectedField expectedValue req =
     addAssertion frames (AssertHeader (toLowerCase expectedField) expectedValue)
       (Some ''header'') req"

definition matchBodySnapshot :: "string \<Rightarrow> (string \<times> jsval) list \<Rightarrow> request \<Rightarrow> request" where
  "matchBodySnapshot frames properties req =
     addAssertion frames (AssertSnapshot properties Body) (Some ''body'') req"

definition matchHeaderSnapshot :: "string \<Rightarrow> (string \<times> jsval) list \<Rightarrow> request \<Rightarrow> request" where
  "matchHeaderSnapshot frames properties req =
     addAssertion frames (AssertSnapshot properties Headers) (Some ''header'') req"

section \<open>The four check functions\<close>

text \<open>
  Each check rewrites fields of the descriptor's own error object and then asserts; the
  object it throws is that rewritten object. The model returns the thrown error, or \<open>Inr ()\<close>
  when the check passes; the header check, which may call \<open>test\<close> on a \<open>RegExp\<close>, also returns
  the store of \<open>lastIndex\<close> values as the call leaves it. What a passing check has written into
  its error object is not kept:
  within one \<open>finalize\<close> each descriptor is evaluated once, an error object belongs to one
  descriptor, and every check writes the fields it raises with before it raises. The
  arguments are typed as the registration operations document them: \<open>expected\<close> is a number
  like \<open>statusCode\<close>, \<open>expectedField\<close> a string, \<open>properties\<close> an object, and what a user callback
  throws is an error object with a string \<open>message\<close>.
\<close>

definition wrapperFn :: "(response \<Rightarrow> js_error option) \<Rightarrow> response \<Rightarrow> js_error \<Rightarrow> js_error + unit" where
  "wrapperFn callback resp assertion_error =
     (case callback resp of
        None \<Rightarrow> Inr ()
      | Some err \<Rightarrow>
          Inl (err\<lparr>stack := js_replace (stack assertion_error) (message assertion_error)
                               (message err)\<rparr>))"

text \<open>The value of \<open>response.body && response.body.errors && response.body.errors[0].message\<close>.\<close>

definition first_error_message :: "response \<Rightarrow> js_error + jsval" where
  "first_error_message resp =
     (if \<not> js_truthy (body resp) then Inr (body resp)
      else and_then (js_get (body resp) ''errors'') (\<lambda>errors.
        if \<not> js_truthy errors then Inr errors
        else and_then (js_get errors ''0'') (\<lambda>first. js_get first ''message'')))"

definition assertStatus :: "response \<Rightarrow> int \<Rightarrow> js_error \<Rightarrow> js_error + unit" where
  "assertStatus resp ex err =
     (let err1 = err\<lparr>message := ''Expected statusCode '' @ show_int ex @ '', got statusCode ''
                        @ show_int (statusCode resp) @ '' '' @ contextString err\<rparr>
      in and_then (first_error_message resp) (\<lambda>m.
           let err2 = (if js_truthy m then err1\<lparr>message := message err1 @ nl @ js_to_string m\<rparr>
                       else err1);
               err3 = err2\<lparr>actual := Plain (JNum (statusCode resp))\<rparr>
           in assert_that (statusCode resp = ex) err3))"

definition assertHeader :: "env \<Rightarrow> response \<Rightarrow> string \<Rightarrow> jsany \<Rightarrow> js_error \<Rightarrow> store
    \<Rightarrow> (js_error + unit) \<times> store" where
  "assertHeader e resp expectedField expectedValue err st =
     (case js_get (headers resp) expectedField of
        Inl te \<Rightarrow> (Inl te, st)
      | Inr actual_value \<Rightarrow>
          (let expectedHeaderString = expectedField @ '': '' @ any_to_string expectedValue;
               actualHeaderString = expectedField @ '': '' @ js_to_string actual_value;
               err1 = err\<lparr>expected := Plain (JStr expectedHeaderString),
                          actual := Plain (JStr actualHeaderString),
                          message := ''Expected header '' @ dq @ expectedHeaderString @ dq
                            @ '' to exist, got headers: '' @ JSON_stringify e (headers resp)
                            @ '' '' @ contextString err\<rparr>
           in case assert_that (\<not> is_undefined actual_value) err1 of
                Inl thrown_error \<Rightarrow> (Inl thrown_error, st)
              | Inr _ \<Rightarrow>
                  (case expectedValue of
                     Pattern re \<Rightarrow>
                       (let tested = js_test re (js_to_string actual_value) st
                        in (assert_that (fst tested)
                             (err1\<lparr>expected := expectedValue, actual := Plain actual_value,
                                   message := ''Expected header '' @ dq @ expectedField @ dq
                                     @ '' to have value matching '' @ dq
                                     @ any_to_string expectedValue @ dq
                                     @ '', got '' @ dq @ js_to_string actual_value @ dq
                                     @ '' '' @ contextString err\<rparr>),
                            snd tested))
                   | Plain v \<Rightarrow>
                       (assert_that (expectedHeaderString = actualHeaderString)
                          (err1\<lparr>message := ''Expected header '' @ dq @ expectedHeaderString @ dq
                                  @ '', got '' @ dq @ actualHeaderString @ dq
                                  @ '' '' @ contextString err\<rparr>),
                        st))))"

text \<open>\<open>result[field]\<close>.\<close>

fun result_field :: "response \<Rightarrow> snapshot_field \<Rightarrow> jsval" where
  "result_field resp Body = body resp"
| "result_field resp Headers = headers resp"

text \<open>
  The \<open>forEach\<close> over \<open>Object.keys(properties)\<close>: the error object is rewritten for each key, and
  the first key whose value is loosely equal to \<open>undefined\<close> ends the loop by throwing.
\<close>

fun forEach_prop :: "env \<Rightarrow> match_result \<Rightarrow> snapshot_field \<Rightarrow> jsval \<Rightarrow> string list \<Rightarrow> js_error
    \<Rightarrow> js_error + js_error" where
  "forEach_prop e m fld v [] err = Inr err"
| "forEach_prop e m fld v (prop # props) err =
     (let errorMessage = dq @ ''response.'' @ field_name fld @ dq
            @ '' is missing the expected property '' @ dq @ prop @ dq;
          err1 = err\<lparr>message := makeMessageFromMatchMessage e (match_message m) errorMessage,
                     expected := Plain (JStr prop), actual := Plain (JStr ''undefined''),
                     showDiff := Some False\<rparr>
      in case js_get v prop of
           Inl te \<Rightarrow> Inl te
         | Inr x \<Rightarrow> (if is_nullish x then Inl err1 else forEach_prop e m fld v props err1))"

definition assertSnapshot :: "env \<Rightarrow> response \<Rightarrow> (string \<times> jsval) list \<Rightarrow> snapshot_field \<Rightarrow> js_error
    \<Rightarrow> js_error + unit" where
  "assertSnapshot e result properties fld err =
     (let v = result_field result fld
      in and_then
           (if \<not> js_truthy v then
              (let err0 = err\<lparr>message := ''Unable to match snapshot on undefined field ''
                                 @ field_name fld @ '' '' @ contextString err,
                               expected := Plain (JStr (field_name fld)),
                               actual := Plain (JStr ''undefined'')\<rparr>
               in and_then (assert_that (\<not> is_nullish v) err0) (\<lambda>_. Inr err0))
            else Inr err) (\<lambda>err1.
         and_then (snapshotManager_match e v properties (''['' @ field_name fld @ '']'')) (\<lambda>m.
         and_then (forEach_prop e m fld v (map fst properties) err1) (\<lambda>err2.
           let err3 = (if \<not> pass m
                       then err2\<lparr>message := makeMessageFromMatchMessage e (match_message m)
                                    (dq @ ''response.'' @ field_name fld @ dq
                                       @ '' does not match snapshot.''),
                                 expected := match_expected m, actual := match_actual m,
                                 showDiff := Some False\<rparr>
                       else err2)
           in assert_that (pass m) err3))))"

text \<open>
  \<open>assertion.fn(response, assertion)\<close>, from a store of \<open>lastIndex\<close> values to the outcome and
  the store afterwards. Only the header check touches the store.
\<close>

definition call_fn :: "env \<Rightarrow> response \<Rightarrow> assertion \<Rightarrow> store \<Rightarrow> (js_error + unit) \<times> store" where
  "call_fn e resp a st =
     (case fn a of
        WrapperFn callback \<Rightarrow> (wrapperFn callback resp (error a), st)
      | AssertStatus ex \<Rightarrow> (assertStatus resp ex (error a), st)
      | AssertHeader expectedField expectedValue \<Rightarrow>
          assertHeader e resp expectedField expectedValue (error a) st
      | AssertSnapshot properties fld \<Rightarrow> (assertSnapshot e resp properties fld (error a), st))"

section \<open>The scheduler and the finalizer\<close>

text \<open>
  A run of \<open>_assertAll\<close>: \<open>thrown\<close> is the exception that leaves it, if any, and \<open>lastIndexes\<close> the
  store as the run leaves it. \<open>evaluated\<close> is bookkeeping of the model: the descriptors whose
  \<open>fn\<close> was called, in the order of the calls.
\<close>

record run =
  evaluated :: "assertion list"
  thrown :: "js_error option"
  lastIndexes :: store

text \<open>
  The first loop of \<open>_assertAll\<close> calls a \<open>body\<close> descriptor on the spot and pushes every other
  one onto \<open>statusCodeAssertions\<close> or \<open>headerAssertions\<close>. A throw leaves the loop (\<open>Inl\<close>);
  otherwise the two lists are handed on (\<open>Inr\<close>).
\<close>

fun first_loop :: "env \<Rightarrow> response \<Rightarrow> assertion list \<Rightarrow> assertion list \<Rightarrow> assertion list
    \<Rightarrow> assertion list \<Rightarrow> store
    \<Rightarrow> run + (assertion list \<times> assertion list \<times> assertion list \<times> store)" where
  "first_loop e resp [] statusCodeAssertions headerAssertions log st =
     Inr (statusCodeAssertions, headerAssertions, log, st)"
| "first_loop e resp (a # rest) statusCodeAssertions headerAssertions log st =
     (if type a = Some ''body'' then
        (case call_fn e resp a st of
           (Inl err, st') \<Rightarrow> Inl \<lparr>evaluated = log @ [a], thrown = Some err, lastIndexes = st'\<rparr>
         | (Inr _, st') \<Rightarrow>
             first_loop e resp rest statusCodeAssertions headerAssertions (log @ [a]) st')
      else if type a = Some ''status'' then
        first_loop e resp rest (statusCodeAssertions @ [a]) headerAssertions log st
      else if type a = Some ''header'' then
        first_loop e resp rest statusCodeAssertions (headerAssertions @ [a]) log st
      else
        first_loop e resp rest statusCodeAssertions (headerAssertions @ [a]) log st)"

text \<open>The second and third loops: call each descriptor of a list in turn.\<close>

fun call_each :: "env \<Rightarrow> response \<Rightarrow> assertion list \<Rightarrow> assertion list \<Rightarrow> store \<Rightarrow> run" where
  "call_each e resp [] log st = \<lparr>evaluated = log, thrown = None, lastIndexes = st\<rparr>"
| "call_each e resp (a # rest) log st =
     (case call_fn e resp a st of
        (Inl err, st') \<Rightarrow> \<lparr>evaluated = log @ [a], thrown = Some err, lastIndexes = st'\<rparr>
      | (Inr _, st') \<Rightarrow> call_each e resp rest (log @ [a]) st')"

definition assertAll :: "env \<Rightarrow> response \<Rightarrow> assertion list \<Rightarrow> store \<Rightarrow> run" where
  "assertAll e resp queue st =
     (case first_loop e resp queue [] [] [] st of
        Inl r \<Rightarrow> r
      | Inr (statusCodeAssertions, headerAssertions, log, st') \<Rightarrow>
          (let r = call_each e resp headerAssertions log st'
           in case thrown r of
                Some err \<Rightarrow> r
              | None \<Rightarrow> call_each e resp statusCodeAssertions (evaluated r) (lastIndexes r)))"

text \<open>
  What \<open>super.finalize\<close> hands to the handler: a transport error, or else a response. The
  caller's callback receives \<open>(error, response)\<close>, either of which may be missing
  (\<open>callback(error)\<close>, \<open>callback(null, response)\<close>); like any function it returns or throws.
  The call \<open>callback(null, response)\<close> stands inside the \<open>try\<close> block, so an exception it throws
  is caught and handed to the callback in a second call.
  \<open>deliveries\<close> lists the calls made to the callback, \<open>checked\<close> the descriptors evaluated,
  \<open>escaped\<close> is the exception that leaves the handler, if any, and \<open>stored\<close> the store of
  \<open>lastIndex\<close> values afterwards.
\<close>

datatype transport = TransportError js_error | TransportResponse response

type_synonym delivery = "js_error option \<times> response option"

record finalize_run =
  deliveries :: "delivery list"
  checked :: "assertion list"
  escaped :: "js_error option"
  stored :: store

definition finalize :: "env \<Rightarrow> request \<Rightarrow> (delivery \<Rightarrow> js_error option) \<Rightarrow> transport \<Rightarrow> store
    \<Rightarrow> finalize_run" where
  "finalize e req callback outcome st =
     (case outcome of
        TransportError err \<Rightarrow>
          \<lparr>deliveries = [(Some err, None)], checked = [], escaped = callback (Some err, None),
           stored = st\<rparr>
      | TransportResponse resp \<Rightarrow>
          (let r = (if assertions req \<noteq> [] then assertAll e resp (assertions req) st
                    else \<lparr>evaluated = [], thrown = None, lastIndexes = st\<rparr>)
           in case thrown r of
                Some err \<Rightarrow>
                  \<lparr>deliveries = [(Some err, None)], checked = evaluated r,
                   escaped = callback (Some err, None), stored = lastIndexes r\<rparr>
              | None \<Rightarrow>
                  (case callback (None, Some resp) of
                     None \<Rightarrow>
                       \<lparr>deliveries = [(None, Some resp)], checked = evaluated r, escaped = None,
                        stored = lastIndexes r\<rparr>
                   | Some err \<Rightarrow>
                       \<lparr>deliveries = [(None, Some resp), (Some err, None)], checked = evaluated r,
                        escaped = callback (Some err, None), stored = lastIndexes r\<rparr>)))"

text \<open>
  The store after the checks of a list have run in turn, whatever their outcomes.
\<close>

definition store_after :: "env \<Rightarrow> response \<Rightarrow> assertion list \<Rightarrow> store \<Rightarrow> store" where
  "store_after e resp xs st = foldl (\<lambda>s a. snd (call_fn e resp a s)) st xs"

section \<open>The order the specification prescribes\<close>

text \<open>
  Written from the specification, for comparison with \<open>assertAll\<close>: the \<open>body\<close> descriptors in
  registration order, then those that are neither \<open>body\<close> nor \<open>status\<close> (the \<open>header\<close> ones and
  those of unrecognized or absent type), then the \<open>status\<close> ones.
\<close>

definition scheduled_order :: "assertion list \<Rightarrow> assertion list" where
  "scheduled_order queue =
     filter (\<lambda>a. type a = Some ''body'') queue
     @ filter (\<lambda>a. type a \<noteq> Some ''body'' \<and> type a \<noteq> Some ''status'') queue
     @ filter (\<lambda>a. type a = Some ''status'') queue"

section \<open>Case-insensitive lookup, as the specification words it\<close>


section \<open>Messages named in the statements\<close>


definition missing_property_message :: "env \<Rightarrow> match_result \<Rightarrow> snapshot_field \<Rightarrow> string \<Rightarrow> string" where
  "missing_property_message e m fld prop =
     makeMessageFromMatchMessage e (match_message m)
       (dq @ ''response.'' @ field_name fld @ dq @ '' is missing the expected property ''
          @ dq @ prop @ dq)"

section \<open>Sample values\<close>

definition env0 :: env where
  "env0 = \<lparr>JSON_stringify = (\<lambda>v. ''{}''),
           snapshotManager_match = (\<lambda>v properties hint.
             Inr \<lparr>pass = True, match_message = [], match_expected = Plain JUndefined,
                  match_actual = Plain JUndefined\<rparr>),
           makeMessageFromMatchMessage = (\<lambda>m errorMessage. errorMessage)\<rparr>"

text \<open>Every \<open>lastIndex\<close> at 0, as for freshly created patterns.\<close>

definition st0 :: store where
  "st0 = (\<lambda>r. 0)"

definition resp0 :: response where
  "resp0 = \<lparr>statusCode = 404,
            headers = JObj [(''content-type'', JStr ''application/json'')],
            body = JObj [(''errors'', JArr [JObj [(''message'', JStr ''X'')]])]\<rparr>"

definition req0 :: request where
  "req0 = \<lparr>assertions = [], reqOptions = ''GET /''\<rparr>"

definition boom :: js_error where
  "boom = new_Error ''Error'' ''boom'' ''at test''"

definition status_a :: assertion where
  "status_a = \<lparr>fn = AssertStatus 404, type = Some ''status'', error = boom\<rparr>"

definition body_a :: assertion where
  "body_a = \<lparr>fn = WrapperFn (\<lambda>r. None), type = Some ''body'', error = boom\<rparr>"

definition header_a :: assertion where
  "header_a = \<lparr>fn = AssertHeader ''content-type'' (Plain (JStr ''application/json'')),
               type = Some ''header'', error = boom\<rparr>"

definition other_a :: assertion where
  "other_a = \<lparr>fn = WrapperFn (\<lambda>r. None), type = None, error = boom\<rparr>"

definition failing_a :: assertion where
  "failing_a = \<lparr>fn = WrapperFn (\<lambda>r. Some boom), type = Some ''body'', error = boom\<rparr>"

text \<open>The descriptor a registration operation has just appended.\<close>

definition registered :: "request \<Rightarrow> assertion" where
  "registered req = last (assertions req)"

text \<open>A response with status 404 whose body is \<open>{errors: []}\<close>.\<close>

definition empty_errors_resp :: response where
  "empty_errors_resp = \<lparr>statusCode = 404, headers = JObj [], body = JObj [(''errors'', JArr [])]\<rparr>"

text \<open>An error a user callback throws, with the message \<open>cost $$5\<close>.\<close>

definition dollar_error :: js_error where
  "dollar_error = new_Error ''Error'' ''cost $$5'' ''at callback''"

text \<open>A response without a body.\<close>

definition no_body_resp :: response where
  "no_body_resp = \<lparr>statusCode = 200, headers = JObj [], body = JUndefined\<rparr>"

text \<open>A response without headers.\<close>

definition no_headers_resp :: response where
  "no_headers_resp = \<lparr>statusCode = 200, headers = JUndefined, body = JObj []\<rparr>"

text \<open>A response with the body \<open>{id: 1}\<close>.\<close>

definition id_resp :: response where
  "id_resp = \<lparr>statusCode = 200,
              headers = JObj [(''content-type'', JStr ''application/json'')],
              body = JObj [(''id'', JNum 1)]\<rparr>"


text \<open>
  The patterns \<open>/json/\<close> and \<open>/json/g\<close>, two objects: the match of \<open>json\<close> found from an index
  onwards ends four characters after its start.
\<close>

definition find_from :: "string \<Rightarrow> string \<Rightarrow> nat \<Rightarrow> nat option" where
  "find_from pat s i = map_option (\<lambda>j. i + j + length pat) (index_of pat (drop i s))"


definition json_g :: regexp where
  "json_g = RegExp 0 ''/json/g'' True False (find_from ''json'')"

definition header_g :: assertion where
  "header_g = \<lparr>fn = AssertHeader ''content-type'' (Pattern json_g), type = Some ''header'',
               error = boom\<rparr>"

text \<open>A callback that throws when it is handed a response.\<close>

definition throwing_callback :: "delivery \<Rightarrow> js_error option" where
  "throwing_callback d = (case snd d of Some resp \<Rightarrow> Some boom | None \<Rightarrow> None)"

section \<open>The scheduler: order and fail-fast\<close>

lemma call_each_append:
  "call_each e resp (xs @ ys) log st =
     (let r = call_each e resp xs log st
      in case thrown r of
           Some err \<Rightarrow> r
         | None \<Rightarrow> call_each e resp ys (evaluated r) (lastIndexes r))"
  by (induction xs arbitrary: log st) (auto split: sum.splits prod.splits)

text \<open>
  The first loop does what calling the \<open>body\<close> descriptors in turn does, and meanwhile sorts
  the others into the two lists without changing their order.
\<close>

lemma first_loop_call_each:
  "first_loop e resp queue sts hds log st =
     (let r = call_each e resp (filter (\<lambda>a. type a = Some ''body'') queue) log st
      in case thrown r of
           Some err \<Rightarrow> Inl r
         | None \<Rightarrow> Inr (sts @ filter (\<lambda>a. type a = Some ''status'') queue,
                        hds @ filter (\<lambda>a. type a \<noteq> Some ''body'' \<and> type a \<noteq> Some ''status'') queue,
                        evaluated r, lastIndexes r))"
  by (induction queue arbitrary: sts hds log st)
     (simp_all add: Let_def split: sum.splits option.splits prod.splits)

lemma assertAll_call_each:
  "assertAll e resp queue st = call_each e resp (scheduled_order queue) [] st"
  by (simp add: assertAll_def scheduled_order_def first_loop_call_each call_each_append Let_def
      split: option.splits)



lemma store_after_snoc:
  "store_after e resp (xs @ [a]) st = snd (call_fn e resp a (store_after e resp xs st))"
  by (simp add: store_after_def)

lemma call_each_prefix:
  "\<exists>n. evaluated (call_each e resp xs log st) = log @ take n xs"
proof (induction xs arbitrary: log st)
  case Nil
  then show ?case by simp
next
  case (Cons a xs)
  obtain r st' where c: "call_fn e resp a st = (r, st')" by (cases "call_fn e resp a st")
  show ?case
  proof (cases r)
    case (Inl err)
    with c have "evaluated (call_each e resp (a # xs) log st) = log @ take 1 (a # xs)" by simp
    then show ?thesis by blast
  next
    case (Inr u)
    from Cons.IH[of "log @ [a]" st'] obtain n where
      "evaluated (call_each e resp xs (log @ [a]) st') = (log @ [a]) @ take n xs" by blast
    with Inr c have "evaluated (call_each e resp (a # xs) log st) = log @ take (Suc n) (a # xs)"
      by simp
    then show ?thesis by blast
  qed
qed

lemma call_each_passed:
  "thrown (call_each e resp xs log st) = None \<Longrightarrow>
     evaluated (call_each e resp xs log st) = log @ xs"
  by (induction xs arbitrary: log st) (auto split: sum.splits prod.splits)




lemma call_simps:
  "call_fn env0 resp0 status_a st = (Inr (), st)"
  "call_fn env0 resp0 body_a st = (Inr (), st)"
  "call_fn env0 resp0 header_a st = (Inr (), st)"
  "call_fn env0 resp0 other_a st = (Inr (), st)"
  by (simp_all add: call_fn_def status_a_def body_a_def header_a_def other_a_def env0_def
      resp0_def assertStatus_def assertHeader_def wrapperFn_def first_error_message_def
      and_then_def assert_that_def array_index_def is_digit_def nat_of_digits_def Let_def
      js_get_def)


lemma types:
  "type status_a = Some ''status''" "type body_a = Some ''body''"
  "type header_a = Some ''header''" "type other_a = None" "type failing_a = Some ''body''"
  by (simp_all add: status_a_def body_a_def header_a_def other_a_def failing_a_def)

text \<open>
  C1. Whatever the queue, the response and the state of the \<open>RegExp\<close> objects, \<open>_assertAll\<close>
  calls the descriptors along the prescribed order: first those of type \<open>body\<close>, then those of
  type \<open>header\<close> together with those of unrecognized or absent type, then those of type
  \<open>status\<close>, each group in registration order. The descriptors it has called always form an
  initial stretch of that order, and when no check throws they are the whole of it.
\<close>

theorem assertAll_order:
  "prefix (evaluated (assertAll e resp queue st)) (scheduled_order queue)
   \<and> (thrown (assertAll e resp queue st) = None \<longrightarrow>
        evaluated (assertAll e resp queue st) = scheduled_order queue)"
proof -
  obtain n where "evaluated (assertAll e resp queue st) = take n (scheduled_order queue)"
    using call_each_prefix[of e resp "scheduled_order queue" "[]" st]
    by (auto simp: assertAll_call_each)
  moreover have "thrown (assertAll e resp queue st) = None \<Longrightarrow>
        evaluated (assertAll e resp queue st) = scheduled_order queue"
    using call_each_passed[of e resp "scheduled_order queue" "[]" st]
    by (simp add: assertAll_call_each)
  ultimately show ?thesis by (auto simp: take_is_prefix)
qed

theorem assertAll_order_witness:
  "thrown (assertAll env0 resp0 [status_a, other_a, header_a, body_a] st0) = None
   \<and> evaluated (assertAll env0 resp0 [status_a, other_a, header_a, body_a] st0)
       = [body_a, other_a, header_a, status_a]"
proof -
  have h: "thrown (assertAll env0 resp0 [status_a, other_a, header_a, body_a] st0) = None"
    by (simp add: assertAll_def call_simps types)
  show ?thesis
    using h assertAll_order[of env0 resp0 "[status_a, other_a, header_a, body_a]" st0]
    by (simp add: scheduled_order_def types)
qed



section \<open>The finalizer\<close>

lemma finalize_cases:
  "(\<exists>err. deliveries (finalize e req callback outcome st) = [(Some err, None)])
   \<or> (\<exists>resp. deliveries (finalize e req callback outcome st) = [(None, Some resp)]
         \<and> callback (None, Some resp) = None)
   \<or> (\<exists>resp err. deliveries (finalize e req callback outcome st)
           = [(None, Some resp), (Some err, None)]
         \<and> callback (None, Some resp) = Some err)"
  by (auto simp: finalize_def Let_def split: transport.splits option.splits)

text \<open>
  What holds of every \<open>finalize\<close> call: each call of the callback carries exactly one of an
  error and a response, at most one error is handed over, and the callback is called exactly
  once when it does not throw on a response.
\<close>

lemma finalize_each_delivery:
  "deliveries (finalize e req callback outcome st) \<noteq> []
   \<and> (\<forall>d \<in> set (deliveries (finalize e req callback outcome st)). (fst d = None) \<noteq> (snd d = None))
   \<and> length (filter (\<lambda>d. fst d \<noteq> None) (deliveries (finalize e req callback outcome st))) \<le> 1
   \<and> ((\<forall>resp. callback (None, Some resp) = None) \<longrightarrow>
         length (deliveries (finalize e req callback outcome st)) = 1)"
  using finalize_cases[of e req callback outcome st] by auto

text \<open>
  C3. The claim: per \<open>finalize\<close> call the caller receives exactly one of an error and a
  response. Evaluated here for a successful transport, an empty queue and a callback that
  throws when it is handed the response: \<open>callback(null, response)\<close> stands inside the \<open>try\<close>
  block, so the \<open>catch\<close> hands the callback's own exception to the callback again, and the caller
  receives the response and then an error, in two calls.
\<close>

theorem finalize_throwing_callback:
  "throwing_callback (None, Some resp0) = Some boom
   \<and> assertions req0 = []
   \<and> deliveries (finalize env0 req0 throwing_callback (TransportResponse resp0) st0)
        = [(None, Some resp0), (Some boom, None)]
   \<and> length (deliveries (finalize env0 req0 throwing_callback (TransportResponse resp0) st0)) = 2"
  by (simp add: finalize_def throwing_callback_def req0_def)

text \<open>
  C4. When the transport reports an error, \<open>finalize\<close> hands that same error, unchanged, to the
  callback, in its only call, and evaluates no queued descriptor.
\<close>

theorem finalize_transport_error:
  "deliveries (finalize e req callback (TransportError err) st) = [(Some err, None)]
   \<and> checked (finalize e req callback (TransportError err) st) = []"
  by (simp add: finalize_def)

theorem finalize_transport_error_witness:
  "deliveries (finalize env0 \<lparr>assertions = [failing_a, status_a], reqOptions = ''GET /''\<rparr>
      (\<lambda>d. None) (TransportError boom) st0) = [(Some boom, None)]
   \<and> checked (finalize env0 \<lparr>assertions = [failing_a, status_a], reqOptions = ''GET /''\<rparr>
      (\<lambda>d. None) (TransportError boom) st0) = []"
  using finalize_transport_error[of env0
      "\<lparr>assertions = [failing_a, status_a], reqOptions = ''GET /''\<rparr>" "\<lambda>d. None" boom st0]
  by simp

section \<open>Registration\<close>

lemma addAssertion_appends:
  "\<exists>d. addAssertion frames f t req = req\<lparr>assertions := assertions req @ [d]\<rparr>
         \<and> fn d = f \<and> type d = t"
proof -
  let ?d = "\<lparr>fn = f, type = t,
             error = (new_AssertionError ''Unexpected assertion error'' (assertion_expected f)
                        frames)\<lparr>contextString := reqOptions req\<rparr>\<rparr>"
  have "addAssertion frames f t req = req\<lparr>assertions := assertions req @ [?d]\<rparr>
          \<and> fn ?d = f \<and> type ?d = t"
    by (simp add: addAssertion_def Let_def)
  then show ?thesis by blast
qed

text \<open>
  C8. \<open>expect\<close> with an argument that is not a function throws the misuse error on the spot and
  leaves the request as it was: no descriptor has been appended, and nothing is sent, since
  registration does not touch the transport. With a function, \<open>expect\<close> throws nothing, and it
  returns the request with exactly one descriptor appended to the queue, as do \<open>expectStatus\<close>,
  \<open>expectHeader\<close>, \<open>matchBodySnapshot\<close> and \<open>matchHeaderSnapshot\<close>.
\<close>

theorem registration_appends_one:
  "fst (expect frames (NotFunction v) req) =
      Some (new_Error ''Error''
        ''express-test expect() requires a callback function, did you mean expectStatus or expectHeader?''
        frames)
   \<and> snd (expect frames (NotFunction v) req) = req
   \<and> fst (expect frames (Function f) req) = None
   \<and> (\<exists>d. snd (expect frames (Function f) req) = req\<lparr>assertions := assertions req @ [d]\<rparr>
          \<and> fn d = WrapperFn f \<and> type d = Some ''body'')
   \<and> (\<exists>d. expectStatus frames ex req = req\<lparr>assertions := assertions req @ [d]\<rparr>
          \<and> fn d = AssertStatus ex \<and> type d = Some ''status'')
   \<and> (\<exists>d. expectHeader frames field val req = req\<lparr>assertions := assertions req @ [d]\<rparr>
          \<and> fn d = AssertHeader (toLowerCase field) val \<and> type d = Some ''header'')
   \<and> (\<exists>d. matchBodySnapshot frames properties req = req\<lparr>assertions := assertions req @ [d]\<rparr>
          \<and> fn d = AssertSnapshot properties Body \<and> type d = Some ''body'')
   \<and> (\<exists>d. matchHeaderSnapshot frames properties req = req\<lparr>assertions := assertions req @ [d]\<rparr>
          \<and> fn d = AssertSnapshot properties Headers \<and> type d = Some ''header'')"
  by (simp add: expect_def expectStatus_def expectHeader_def matchBodySnapshot_def
      matchHeaderSnapshot_def addAssertion_appends)

theorem registration_appends_one_witness:
  "snd (expect ''at test'' (NotFunction (JNum 200)) req0) = req0
   \<and> fst (expect ''at test'' (NotFunction (JNum 200)) req0) \<noteq> None
   \<and> fst (expect ''at test'' (Function (\<lambda>r. None)) req0) = None
   \<and> (\<exists>d. snd (expect ''at test'' (Function (\<lambda>r. None)) req0)
            = req0\<lparr>assertions := assertions req0 @ [d]\<rparr>)"
  using registration_appends_one[of "''at test''" "JNum 200" req0 "\<lambda>r. None" 200
      "''Content-Type''" "Plain (JStr ''application/json'')" "[]"]
  by (simp, blast)

section \<open>The status check\<close>

lemma registered_addAssertion:
  "registered (addAssertion frames f t req) =
     \<lparr>fn = f, type = t,
      error = (new_AssertionError ''Unexpected assertion error'' (assertion_expected f) frames)
                \<lparr>contextString := reqOptions req\<rparr>\<rparr>"
  by (simp add: registered_def addAssertion_def Let_def)

text \<open>Lookups in the prototype tables.\<close>

lemma object_prototype_lookups:
  "map_of object_prototype ''errors'' = None"
  "map_of object_prototype ''0'' = None"
  "map_of object_prototype ''message'' = None"
  "map_of object_prototype ''id'' = None"
  "map_of object_prototype ''etag'' = None"
  "map_of object_prototype ''content-type'' = None"
  "map_of object_prototype ''constructor'' = Some (JNative ''function Object() { [native code] }'')"
  by code_simp+

lemma other_prototype_lookups:
  "map_of (array_prototype @ object_prototype) ''errors'' = None"
  "map_of (array_prototype @ object_prototype) ''0'' = None"
  "map_of (array_prototype @ object_prototype) ''message'' = None"
  "map_of (string_prototype @ object_prototype) ''errors'' = None"
  "map_of (string_prototype @ object_prototype) ''0'' = None"
  "map_of (string_prototype @ object_prototype) ''message'' = None"
  "map_of (number_prototype @ object_prototype) ''errors'' = None"
  "map_of (number_prototype @ object_prototype) ''0'' = None"
  "map_of (number_prototype @ object_prototype) ''message'' = None"
  "map_of (boolean_prototype @ object_prototype) ''errors'' = None"
  "map_of (boolean_prototype @ object_prototype) ''0'' = None"
  "map_of (boolean_prototype @ object_prototype) ''message'' = None"
  by code_simp+

text \<open>No value inherits a member named \<open>errors\<close>, \<open>0\<close> or \<open>message\<close>.\<close>

lemma not_inherited:
  "inherited v ''errors'' = None" "inherited v ''0'' = None" "inherited v ''message'' = None"
  by (cases v; simp add: object_prototype_lookups other_prototype_lookups del: map_of_append)+

lemma js_get_throws_iff: "(\<exists>te. js_get v p = Inl te) = is_nullish v"
  by (simp add: js_get_def split: option.splits)

lemma js_get_own: "own_property v p = Some x \<Longrightarrow> js_get v p = Inr x"
  by (cases v) (simp_all add: js_get_def)

lemma first_error_message_empty:
  "body resp = JObj kvs \<Longrightarrow> map_of kvs ''errors'' = Some (JArr []) \<Longrightarrow>
     first_error_message resp = Inl (type_error JUndefined ''message'')"
  by (simp add: first_error_message_def and_then_def js_get_def not_inherited array_index_def
      is_digit_def nat_of_digits_def)

text \<open>
  C10. When the body of the response has an \<open>errors\<close> property that is an empty list, the
  status check reads \<open>.message\<close> of \<open>errors[0]\<close>, which is \<open>undefined\<close>, without a guard: the
  check raises a \<open>TypeError\<close>, not the assertion failure the descriptor holds ready. This
  happens before the status codes are compared, so for a mismatching response as for a
  matching one.
\<close>

theorem status_check_empty_errors:
  assumes "body resp = JObj kvs" and "map_of kvs ''errors'' = Some (JArr [])"
    and "fn a = AssertStatus ex"
  shows "call_fn e resp a st = (Inl (type_error JUndefined ''message''), st)
         \<and> name (type_error JUndefined ''message'') = ''TypeError''"
  using assms
  by (simp add: call_fn_def assertStatus_def first_error_message_empty and_then_def
      type_error_def new_Error_def)

theorem status_check_empty_errors_witness:
  "body empty_errors_resp = JObj [(''errors'', JArr [])]
   \<and> map_of [(''errors'', JArr [])] ''errors'' = Some (JArr [])
   \<and> fn (registered (expectStatus ''at test'' 200 req0)) = AssertStatus 200
   \<and> statusCode empty_errors_resp \<noteq> 200
   \<and> call_fn env0 empty_errors_resp (registered (expectStatus ''at test'' 200 req0)) st0
        = (Inl (type_error JUndefined ''message''), st0)"
proof -
  have b: "body empty_errors_resp = JObj [(''errors'', JArr [])]"
    by (simp add: empty_errors_resp_def)
  have m: "map_of [(''errors'', JArr [])] ''errors'' = Some (JArr [])" by simp
  have f: "fn (registered (expectStatus ''at test'' 200 req0)) = AssertStatus 200"
    by (simp add: expectStatus_def registered_addAssertion)
  have s: "statusCode empty_errors_resp \<noteq> 200" by (simp add: empty_errors_resp_def)
  show ?thesis
    using b m f s status_check_empty_errors[OF b m f, of env0 st0] by simp
qed

text \<open>
  When reading the first error's message does not raise, a mismatching status code makes the
  check fail with a message that contains both codes, and a truthy first message is appended
  after a newline.
\<close>

lemma sublist_if_append:
  "sublist x b \<Longrightarrow> sublist x (if c then b @ t else b)"
  by (auto simp: sublist_def) (metis append.assoc)

lemma assertStatus_mismatch_message:
  assumes "first_error_message resp = Inr m" and "statusCode resp \<noteq> ex"
  shows "\<exists>err'. assertStatus resp ex err = Inl err'
           \<and> sublist (show_int ex) (message err')
           \<and> sublist (show_int (statusCode resp)) (message err')
           \<and> (js_truthy m \<longrightarrow> suffix (nl @ js_to_string m) (message err'))"
proof -
  let ?base = "''Expected statusCode '' @ show_int ex @ '', got statusCode ''
                 @ show_int (statusCode resp) @ '' '' @ contextString err"
  let ?msg = "if js_truthy m then ?base @ nl @ js_to_string m else ?base"
  have r: "assertStatus resp ex err
             = Inl (err\<lparr>message := ?msg, actual := Plain (JNum (statusCode resp))\<rparr>)"
    using assms by (simp add: assertStatus_def and_then_def assert_that_def Let_def)
  have a: "sublist (show_int ex) ?msg"
    by (rule sublist_if_append) (rule sublist_appendI)
  have "sublist (show_int (statusCode resp))
          ((''Expected statusCode '' @ show_int ex @ '', got statusCode '')
             @ show_int (statusCode resp) @ ('' '' @ contextString err))"
    by (rule sublist_appendI)
  then have "sublist (show_int (statusCode resp)) ?base" by simp
  then have b: "sublist (show_int (statusCode resp)) ?msg"
    by (rule sublist_if_append)
  have c: "js_truthy m \<longrightarrow> suffix (nl @ js_to_string m) ?msg"
    by (auto simp: suffix_def)
  from r a b c show ?thesis by simp
qed

lemma first_error_message_present:
  "body resp = JObj kvs \<Longrightarrow> map_of kvs ''errors'' = Some (JArr (JObj ps # others)) \<Longrightarrow>
   map_of ps ''message'' = Some (JStr x) \<Longrightarrow> first_error_message resp = Inr (JStr x)"
  by (simp add: first_error_message_def and_then_def js_get_def array_index_def is_digit_def
      nat_of_digits_def)

text \<open>
  C6. The claim: whenever \<open>expectStatus(expected)\<close> meets a response with another status code,
  the check fails with a message containing both codes. Evaluated here at \<open>expectStatus(200)\<close>
  against a response with status 404 and body \<open>{errors: []}\<close>: what the check raises is the
  \<open>TypeError\<close> of reading \<open>message\<close> of \<open>undefined\<close>, and its message contains neither \<open>200\<close> nor
  \<open>404\<close>.
\<close>

theorem expectStatus_mismatch_empty_errors:
  "statusCode empty_errors_resp = 404
   \<and> body empty_errors_resp = JObj [(''errors'', JArr [])]
   \<and> (\<exists>err. fst (call_fn env0 empty_errors_resp (registered (expectStatus ''at test'' 200 req0))
                    st0) = Inl err
        \<and> name err = ''TypeError''
        \<and> message err = ''Cannot read properties of undefined (reading '' @ [CHR 0x27]
             @ ''message'' @ [CHR 0x27] @ '')''
        \<and> \<not> sublist ''200'' (message err) \<and> \<not> sublist ''404'' (message err))"
  by (simp add: empty_errors_resp_def expectStatus_def registered_addAssertion call_fn_def
      assertStatus_def first_error_message_def and_then_def js_get_def not_inherited
      array_index_def is_digit_def nat_of_digits_def type_error_def new_Error_def sublist_code)

section \<open>The callback check\<close>

lemma get_substitution_plain:
  "CHR 0x24 \<notin> set r \<Longrightarrow> get_substitution m b a r = r"
  by (induction m b a r rule: get_substitution.induct) auto

lemma placeholder_index:
  "index_of ''Unexpected assertion error''
     (''AssertionError [ERR_ASSERTION]: '' @ ''Unexpected assertion error'' @ rest) = Some 32"
  by simp

lemma registration_stack_replace:
  "js_replace (''AssertionError [ERR_ASSERTION]: '' @ ''Unexpected assertion error'' @ nl @ frames)
      ''Unexpected assertion error'' r
   = ''AssertionError [ERR_ASSERTION]: ''
       @ get_substitution ''Unexpected assertion error'' ''AssertionError [ERR_ASSERTION]: ''
           (nl @ frames) r
       @ nl @ frames"
  unfolding js_replace_def placeholder_index by (simp add: Let_def)

lemma call_fn_expect:
  "call_fn e resp (registered (snd (expect frames (Function callback) req))) st =
     (case callback resp of
        None \<Rightarrow> (Inr (), st)
      | Some err \<Rightarrow>
          (Inl (err\<lparr>stack := ''AssertionError [ERR_ASSERTION]: ''
                  @ get_substitution ''Unexpected assertion error''
                      ''AssertionError [ERR_ASSERTION]: '' (nl @ frames) (message err)
                  @ nl @ frames\<rparr>), st))"
proof -
  have "stack (error (registered (snd (expect frames (Function callback) req))))
          = ''AssertionError [ERR_ASSERTION]: '' @ ''Unexpected assertion error'' @ nl @ frames"
    and "message (error (registered (snd (expect frames (Function callback) req))))
          = ''Unexpected assertion error''"
    and "fn (registered (snd (expect frames (Function callback) req))) = WrapperFn callback"
    by (simp_all add: expect_def registered_addAssertion new_AssertionError_def)
  then show ?thesis
    by (simp add: call_fn_def wrapperFn_def registration_stack_replace del: append.simps
        split: option.splits)
qed

text \<open>
  A thrown error whose message has no \<open>$\<close> is re-raised with the registration-time stack in
  which the placeholder is replaced by that message.
\<close>

lemma callback_error_plain_message:
  assumes "callback resp = Some err" and "CHR 0x24 \<notin> set (message err)"
  shows "call_fn e resp (registered (snd (expect frames (Function callback) req))) st
           = (Inl (err\<lparr>stack := ''AssertionError [ERR_ASSERTION]: '' @ message err @ nl
                                    @ frames\<rparr>), st)"
  using assms by (simp add: call_fn_expect get_substitution_plain del: append.simps)

text \<open>
  C9. The claim: the error a user callback throws is re-raised with the registration-time
  stack in which the placeholder message is replaced by the new error's message. Evaluated
  here for a callback that throws an error with the message \<open>cost $$5\<close>: the stack of the
  re-raised error reads \<open>cost $5\<close>, because \<open>replace\<close> expands \<open>$$\<close> in its replacement argument.
\<close>

theorem callback_error_dollar_message:
  "message dollar_error = ''cost $$5''
   \<and> fst (call_fn env0 resp0
        (registered (snd (expect ''at test'' (Function (\<lambda>r. Some dollar_error)) req0))) st0)
      = Inl (dollar_error\<lparr>stack := ''AssertionError [ERR_ASSERTION]: cost $5'' @ nl @ ''at test''\<rparr>)"
  by (simp add: call_fn_expect dollar_error_def new_Error_def)

section \<open>The header check\<close>













text \<open>
  What the amended statement leaves open. A pattern with the \<open>g\<close> flag that two descriptors share: the first check leaves its
  \<open>lastIndex\<close> at the end of the match, and the second, identical check fails from there.
\<close>

lemma shared_global_regexp:
  "call_fn env0 resp0 header_g st0 = (Inr (), st0(0 := 16))"
  "fst (call_fn env0 resp0 header_g (st0(0 := 16))) \<noteq> Inr ()"
  "evaluated (assertAll env0 resp0 [header_g, header_g] st0) = [header_g, header_g]"
  "thrown (assertAll env0 resp0 [header_g, header_g] st0) \<noteq> None"
proof -
  have t: "type header_g = Some ''header''" by (simp add: header_g_def)
  show 1: "call_fn env0 resp0 header_g st0 = (Inr (), st0(0 := 16))"
    by (simp add: call_fn_def header_g_def assertHeader_def js_get_def resp0_def
        assert_that_def js_test_def json_g_def find_from_def st0_def Let_def eval_nat_numeral)
  show 2: "fst (call_fn env0 resp0 header_g (st0(0 := 16))) \<noteq> Inr ()"
    by (simp add: call_fn_def header_g_def assertHeader_def js_get_def resp0_def
        assert_that_def js_test_def json_g_def find_from_def st0_def Let_def)
  then obtain err s where 3: "call_fn env0 resp0 header_g (st0(0 := 16)) = (Inl err, s)"
    by (cases "call_fn env0 resp0 header_g (st0(0 := 16))")
       (metis fst_conv old.unit.exhaust sum.exhaust)
  show "evaluated (assertAll env0 resp0 [header_g, header_g] st0) = [header_g, header_g]"
    by (simp add: assertAll_def t 1 3)
  show "thrown (assertAll env0 resp0 [header_g, header_g] st0) \<noteq> None"
    by (simp add: assertAll_def t 1 3)
qed

text \<open>
  And a header name that every object inherits: against a response without headers of that
  name, \<open>expectHeader('Constructor', 'x')\<close> reads the inherited \<open>constructor\<close> and reports a
  mismatch, not a missing header.
\<close>

lemma inherited_header_name:
  "own_property (headers empty_errors_resp) (toLowerCase ''Constructor'') = None"
  "map_sum message id (fst (call_fn env0 empty_errors_resp
      (registered (expectHeader ''at test'' ''Constructor'' (Plain (JStr ''x'')) req0)) st0))
   = Inl (''Expected header '' @ dq @ ''constructor: x'' @ dq @ '', got '' @ dq
            @ ''constructor: function Object() { [native code] }'' @ dq @ '' GET /'')"
  by (simp_all add: call_fn_def assertHeader_def js_get_def empty_errors_resp_def
      toLowerCase_def to_lower_def object_prototype_lookups assert_that_def Let_def
      expectHeader_def registered_addAssertion req0_def new_AssertionError_def dq_def)

section \<open>The snapshot check\<close>

lemma forEach_prop_missing:
  assumes "p \<in> set props" and "js_get v p = Inr x" and "is_nullish x"
  shows "\<exists>p0 x0 err'. p0 \<in> set props \<and> js_get v p0 = Inr x0 \<and> is_nullish x0
           \<and> forEach_prop e m fld v props err = Inl err'
           \<and> message err' = missing_property_message e m fld p0"
  using assms
proof (induction props arbitrary: err)
  case Nil
  then show ?case by simp
next
  case (Cons q props)
  show ?case
  proof (cases "js_get v q")
    case (Inl te)
    then have "is_nullish v" using js_get_throws_iff[of v q] by blast
    then have "\<exists>te. js_get v p = Inl te" using js_get_throws_iff[of v p] by blast
    with Cons.prems show ?thesis by auto
  next
    case (Inr y)
    show ?thesis
    proof (cases "is_nullish y")
      case True
      with Inr show ?thesis
        by (intro exI[of _ q] exI[of _ y]) (simp add: Let_def missing_property_message_def)
    next
      case False
      with Inr Cons.prems have "p \<in> set props" by auto
      from Cons.IH[OF this Cons.prems(2,3)] obtain p0 x0 err' where
        "p0 \<in> set props" "js_get v p0 = Inr x0" "is_nullish x0"
        "forEach_prop e m fld v props
           (err\<lparr>message := makeMessageFromMatchMessage e (match_message m)
                   (dq @ ''response.'' @ field_name fld @ dq
                      @ '' is missing the expected property '' @ dq @ q @ dq),
                 expected := Plain (JStr q), actual := Plain (JStr ''undefined''),
                 showDiff := Some False\<rparr>) = Inl err'"
        "message err' = missing_property_message e m fld p0"
        by blast
      with Inr False show ?thesis
        by (intro exI[of _ p0] exI[of _ x0] exI[of _ err']) (simp add: Let_def)
    qed
  qed
qed

lemma forEach_prop_present:
  "\<forall>p \<in> set props. \<exists>x. js_get v p = Inr x \<and> \<not> is_nullish x \<Longrightarrow>
     \<exists>err'. forEach_prop e m fld v props err = Inr err'"
  by (induction props arbitrary: err) (auto simp: Let_def)

lemma assertSnapshot_missing:
  assumes "p \<in> set (map fst properties)" and "js_get (result_field resp fld) p = Inr x"
    and "is_nullish x"
  shows "(\<exists>err'. assertSnapshot e resp properties fld err = Inl err')
     \<and> (\<forall>m. snapshotManager_match e (result_field resp fld) properties
                (''['' @ field_name fld @ '']'') = Inr m \<longrightarrow>
            (\<exists>p0 x0 err'. p0 \<in> set (map fst properties)
               \<and> js_get (result_field resp fld) p0 = Inr x0 \<and> is_nullish x0
               \<and> assertSnapshot e resp properties fld err = Inl err'
               \<and> message err' = missing_property_message e m fld p0))"
proof -
  let ?v = "result_field resp fld"
  let ?hint = "''['' @ field_name fld @ '']''"
  have nn: "\<not> is_nullish ?v"
    using assms(2) js_get_throws_iff[of ?v p] by auto
  have "\<exists>err1.
     (if \<not> js_truthy ?v then
        (let err0 = err\<lparr>message := ''Unable to match snapshot on undefined field ''
                           @ field_name fld @ '' '' @ contextString err,
                         expected := Plain (JStr (field_name fld)),
                         actual := Plain (JStr ''undefined'')\<rparr>
         in and_then (assert_that (\<not> is_nullish ?v) err0) (\<lambda>_. Inr err0))
      else Inr err) = Inr err1"
    using nn by (cases "js_truthy ?v") (simp_all add: and_then_def assert_that_def Let_def)
  then obtain err1 where g:
    "(if \<not> js_truthy ?v then
        (let err0 = err\<lparr>message := ''Unable to match snapshot on undefined field ''
                           @ field_name fld @ '' '' @ contextString err,
                         expected := Plain (JStr (field_name fld)),
                         actual := Plain (JStr ''undefined'')\<rparr>
         in and_then (assert_that (\<not> is_nullish ?v) err0) (\<lambda>_. Inr err0))
      else Inr err) = Inr err1"
    by blast
  have step: "assertSnapshot e resp properties fld err =
     and_then (snapshotManager_match e ?v properties ?hint) (\<lambda>m.
       and_then (forEach_prop e m fld ?v (map fst properties) err1) (\<lambda>err2.
         let err3 = (if \<not> pass m
                     then err2\<lparr>message := makeMessageFromMatchMessage e (match_message m)
                                  (dq @ ''response.'' @ field_name fld @ dq
                                     @ '' does not match snapshot.''),
                               expected := match_expected m, actual := match_actual m,
                               showDiff := Some False\<rparr>
                     else err2)
         in assert_that (pass m) err3))"
    unfolding assertSnapshot_def Let_def g[unfolded Let_def] by (simp add: and_then_def)
  have each: "\<exists>p0 x0 err'. p0 \<in> set (map fst properties)
               \<and> js_get ?v p0 = Inr x0 \<and> is_nullish x0
               \<and> assertSnapshot e resp properties fld err = Inl err'
               \<and> message err' = missing_property_message e m fld p0"
    if "snapshotManager_match e ?v properties ?hint = Inr m" for m
  proof -
    from forEach_prop_missing[OF assms, of e m fld err1] obtain p0 x0 err' where
      "p0 \<in> set (map fst properties)" "js_get ?v p0 = Inr x0" "is_nullish x0"
      "forEach_prop e m fld ?v (map fst properties) err1 = Inl err'"
      "message err' = missing_property_message e m fld p0"
      by blast
    with that step show ?thesis by (auto simp: and_then_def)
  qed
  have "\<exists>err'. assertSnapshot e resp properties fld err = Inl err'"
  proof (cases "snapshotManager_match e ?v properties ?hint")
    case (Inl te)
    with step show ?thesis by (simp add: and_then_def)
  next
    case (Inr m)
    from each[OF this] show ?thesis by blast
  qed
  with each show ?thesis by blast
qed

lemma assertSnapshot_no_field:
  "result_field resp fld = JUndefined \<Longrightarrow>
     assertSnapshot e resp properties fld err =
       Inl (err\<lparr>message := ''Unable to match snapshot on undefined field ''
                   @ field_name fld @ '' '' @ contextString err,
                 expected := Plain (JStr (field_name fld)),
                 actual := Plain (JStr ''undefined'')\<rparr>)"
  by (simp add: assertSnapshot_def and_then_def assert_that_def Let_def)

lemma call_fn_matchBodySnapshot:
  "call_fn e resp (registered (matchBodySnapshot frames properties req)) st
     = (assertSnapshot e resp properties Body
          (error (registered (matchBodySnapshot frames properties req))), st)"
  by (simp add: call_fn_def matchBodySnapshot_def registered_addAssertion)

lemma call_fn_matchHeaderSnapshot:
  "call_fn e resp (registered (matchHeaderSnapshot frames properties req)) st
     = (assertSnapshot e resp properties Headers
          (error (registered (matchHeaderSnapshot frames properties req))), st)"
  by (simp add: call_fn_def matchHeaderSnapshot_def registered_addAssertion)

text \<open>
  When reading a named property from the body (for \<open>matchBodySnapshot\<close>) or from the headers
  (for \<open>matchHeaderSnapshot\<close>) yields \<open>undefined\<close>, the check fails whatever the Snapshot Matcher
  answers, with the \<open>is missing the expected property\<close> message if the Matcher returned; and it
  fails when the body, or the headers, are absent.
\<close>

lemma matchBodySnapshot_missing_property:
  assumes "p \<in> set (map fst properties)" and "js_get (body resp) p = Inr JUndefined"
  shows "(\<exists>err'. fst (call_fn e resp (registered (matchBodySnapshot frames properties req)) st)
                   = Inl err')
     \<and> (\<forall>m. snapshotManager_match e (body resp) properties ''[body]'' = Inr m \<longrightarrow>
            (\<exists>p0 x0 err'. p0 \<in> set (map fst properties)
               \<and> js_get (body resp) p0 = Inr x0 \<and> is_nullish x0
               \<and> fst (call_fn e resp (registered (matchBodySnapshot frames properties req)) st)
                    = Inl err'
               \<and> message err' = missing_property_message e m Body p0))"
  using assertSnapshot_missing[of p properties resp Body JUndefined e
      "error (registered (matchBodySnapshot frames properties req))"] assms
  by (simp add: call_fn_matchBodySnapshot)

lemma matchHeaderSnapshot_missing_property:
  assumes "p \<in> set (map fst properties)" and "js_get (headers resp) p = Inr JUndefined"
  shows "(\<exists>err'. fst (call_fn e resp (registered (matchHeaderSnapshot frames properties req)) st)
                   = Inl err')
     \<and> (\<forall>m. snapshotManager_match e (headers resp) properties ''[headers]'' = Inr m \<longrightarrow>
            (\<exists>p0 x0 err'. p0 \<in> set (map fst properties)
               \<and> js_get (headers resp) p0 = Inr x0 \<and> is_nullish x0
               \<and> fst (call_fn e resp (registered (matchHeaderSnapshot frames properties req)) st)
                    = Inl err'
               \<and> message err' = missing_property_message e m Headers p0))"
  using assertSnapshot_missing[of p properties resp Headers JUndefined e
      "error (registered (matchHeaderSnapshot frames properties req))"] assms
  by (simp add: call_fn_matchHeaderSnapshot)

lemma snapshot_context:
  "contextString (error (registered (matchBodySnapshot frames properties req))) = reqOptions req"
  "contextString (error (registered (matchHeaderSnapshot frames properties req))) = reqOptions req"
  by (simp_all add: matchBodySnapshot_def matchHeaderSnapshot_def registered_addAssertion)

lemma snapshot_absent_field:
  "body resp = JUndefined \<Longrightarrow>
     \<exists>err'. fst (call_fn e resp (registered (matchBodySnapshot frames properties req)) st)
               = Inl err'
       \<and> message err' = ''Unable to match snapshot on undefined field body '' @ reqOptions req"
  "headers resp = JUndefined \<Longrightarrow>
     \<exists>err'. fst (call_fn e resp (registered (matchHeaderSnapshot frames properties req)) st)
               = Inl err'
       \<and> message err' = ''Unable to match snapshot on undefined field headers '' @ reqOptions req"
  by (simp_all add: call_fn_matchBodySnapshot call_fn_matchHeaderSnapshot assertSnapshot_no_field
      snapshot_context)

lemma snapshot_samples:
  "fst (call_fn env0 id_resp
     (registered (matchBodySnapshot ''at test'' [(''name'', JStr ''x'')] req0)) st0) \<noteq> Inr ()"
  "fst (call_fn env0 no_body_resp
     (registered (matchBodySnapshot ''at test'' [] req0)) st0) \<noteq> Inr ()"
  "fst (call_fn env0 no_headers_resp
     (registered (matchHeaderSnapshot ''at test'' [] req0)) st0) \<noteq> Inr ()"
proof -
  have n: "map_of object_prototype ''name'' = None" by code_simp
  show "fst (call_fn env0 id_resp
     (registered (matchBodySnapshot ''at test'' [(''name'', JStr ''x'')] req0)) st0) \<noteq> Inr ()"
    using matchBodySnapshot_missing_property[of "''name''" "[(''name'', JStr ''x'')]" id_resp
        env0 "''at test''" req0 st0]
    by (auto simp: id_resp_def js_get_def n)
  show "fst (call_fn env0 no_body_resp
     (registered (matchBodySnapshot ''at test'' [] req0)) st0) \<noteq> Inr ()"
    using snapshot_absent_field(1)[of no_body_resp env0 "''at test''" "[]" req0 st0]
    by (auto simp: no_body_resp_def)
  show "fst (call_fn env0 no_headers_resp
     (registered (matchHeaderSnapshot ''at test'' [] req0)) st0) \<noteq> Inr ()"
    using snapshot_absent_field(2)[of no_headers_resp env0 "''at test''" "[]" req0 st0]
    by (auto simp: no_headers_resp_def)
qed

text \<open>
  The body snapshot reads the body and the header snapshot the headers: against a response
  whose body holds \<open>id\<close> only and whose headers hold \<open>content-type\<close> only, each passes for
  the property its own field holds and fails for the property of the other field.
\<close>

lemma snapshot_reads_its_field:
  "fst (call_fn env0 id_resp
     (registered (matchBodySnapshot ''at test'' [(''id'', JStr ''x'')] req0)) st0) = Inr ()"
  "fst (call_fn env0 id_resp
     (registered (matchHeaderSnapshot ''at test'' [(''id'', JStr ''x'')] req0)) st0) \<noteq> Inr ()"
  "fst (call_fn env0 id_resp
     (registered (matchHeaderSnapshot ''at test'' [(''content-type'', JStr ''x'')] req0)) st0)
     = Inr ()"
  "fst (call_fn env0 id_resp
     (registered (matchBodySnapshot ''at test'' [(''content-type'', JStr ''x'')] req0)) st0)
     \<noteq> Inr ()"
proof -
  show "fst (call_fn env0 id_resp
     (registered (matchBodySnapshot ''at test'' [(''id'', JStr ''x'')] req0)) st0) = Inr ()"
    by (simp add: call_fn_matchBodySnapshot assertSnapshot_def id_resp_def env0_def
        and_then_def assert_that_def js_get_def Let_def)
  show "fst (call_fn env0 id_resp
     (registered (matchHeaderSnapshot ''at test'' [(''content-type'', JStr ''x'')] req0)) st0)
     = Inr ()"
    by (simp add: call_fn_matchHeaderSnapshot assertSnapshot_def id_resp_def env0_def
        and_then_def assert_that_def js_get_def Let_def)
  show "fst (call_fn env0 id_resp
     (registered (matchHeaderSnapshot ''at test'' [(''id'', JStr ''x'')] req0)) st0) \<noteq> Inr ()"
    using matchHeaderSnapshot_missing_property[of "''id''" "[(''id'', JStr ''x'')]" id_resp
        env0 "''at test''" req0 st0]
    by (auto simp: id_resp_def js_get_def object_prototype_lookups)
  show "fst (call_fn env0 id_resp
     (registered (matchBodySnapshot ''at test'' [(''content-type'', JStr ''x'')] req0)) st0)
     \<noteq> Inr ()"
    using matchBodySnapshot_missing_property[of "''content-type''"
        "[(''content-type'', JStr ''x'')]" id_resp env0 "''at test''" req0 st0]
    by (auto simp: id_resp_def js_get_def object_prototype_lookups)
qed


end
